theory Spec2Isabelle
  imports Main
begin

section \<open>The contacts service: values, exceptions, configuration\<close>

text \<open>
  The request payload of \<^verbatim>\<open>add_contact\<close> is a JSON object, which Python holds as a dict
  from keys to JSON values. The values modelled are strings, booleans, integers and null
  (Python's \<^verbatim>\<open>None\<close>). A Python \<^verbatim>\<open>str\<close> is a sequence of code points; the model's
  \<open>string\<close> covers the code points 0 to 255, and none of the character classes of the
  service contains a code point beyond them.
\<close>

datatype jval = JStr string | JBool bool | JInt int | JNull

text \<open>Python's \<^verbatim>\<open>==\<close> on these values; \<^verbatim>\<open>bool\<close> is a subclass of \<^verbatim>\<open>int\<close>.\<close>

fun py_eq :: "jval \<Rightarrow> jval \<Rightarrow> bool" where
  "py_eq (JStr s) (JStr t) = (s = t)"
| "py_eq (JBool b) (JBool c) = (b = c)"
| "py_eq (JInt m) (JInt n) = (m = n)"
| "py_eq (JBool b) (JInt n) = ((if b then 1 else 0) = n)"
| "py_eq (JInt n) (JBool b) = (n = (if b then 1 else 0))"
| "py_eq JNull JNull = True"
| "py_eq _ _ = False"

text \<open>Python's truth value of an object, as \<^verbatim>\<open>and\<close> and \<^verbatim>\<open>if\<close> take it.\<close>

fun truthy :: "jval \<Rightarrow> bool" where
  "truthy (JStr s) = (s \<noteq> [])"
| "truthy (JBool b) = b"
| "truthy (JInt n) = (n \<noteq> 0)"
| "truthy JNull = False"

type_synonym req = "string \<rightharpoonup> jval"

text \<open>
  The exceptions the service raises or lets through. \<^verbatim>\<open>UserWarning\<close> and
  \<^verbatim>\<open>ValueError\<close> carry the message they are raised with.
\<close>

datatype exn =
    UserWarning string
  | ValueError string
  | PermissionError
  | InvalidTokenError
  | SQLAlchemyError
  | KeyError string
  | TypeError

text \<open>The error kinds of the specification are the messages of the source's raises.\<close>

definition MissingField :: exn where
  "MissingField = UserWarning ''missing required field(s)''"

definition InvalidAccountNumber :: exn where
  "InvalidAccountNumber = UserWarning ''invalid account number''"

definition InvalidRoutingNumber :: exn where
  "InvalidRoutingNumber = UserWarning ''invalid routing number''"

definition InvalidLabel :: exn where
  "InvalidLabel = UserWarning ''invalid account label''"

definition SelfReference :: exn where
  "SelfReference = ValueError ''may not add yourself to contacts''"

definition DuplicateAccount :: exn where
  "DuplicateAccount = ValueError ''account already exists as a contact''"

definition DuplicateLabel :: exn where
  "DuplicateLabel = ValueError ''contact already exists with that label''"

text \<open>
  \<^verbatim>\<open>APP.config['LOCAL_ROUTING'] = os.environ.get('LOCAL_ROUTING_NUM')\<close>: a string when the
  variable is set, \<^verbatim>\<open>None\<close> (\<open>JNull\<close>) otherwise.
\<close>

record config =
  LOCAL_ROUTING :: jval

text \<open>
  Sequencing of steps that may raise: the first exception ends the computation, as it
  leaves the Python function.
\<close>

definition bind_exn :: "exn + 'a \<Rightarrow> ('a \<Rightarrow> exn + 'b) \<Rightarrow> exn + 'b" where
  "bind_exn m f = (case m of Inl e \<Rightarrow> Inl e | Inr v \<Rightarrow> f v)"

text \<open>\<^verbatim>\<open>req[k]\<close> on a dict raises \<^verbatim>\<open>KeyError\<close> on a missing key.\<close>

definition getitem :: "req \<Rightarrow> string \<Rightarrow> exn + jval" where
  "getitem r k = (case r k of None \<Rightarrow> Inl (KeyError k) | Some v \<Rightarrow> Inr v)"

section \<open>Regular expressions of the validator\<close>

text \<open>
  The three patterns are a sequence of character classes, each with a bounded repetition
  \<^verbatim>\<open>{lo,hi}\<close>, between a start anchor and an end anchor. \<^verbatim>\<open>re.match\<close> starts at
  position 0, where \<^verbatim>\<open>\A\<close> and \<^verbatim>\<open>^\<close> both hold. \<open>rep_rests P lo hi s\<close> lists, in the
  order the backtracking matcher tries them (greedy first), what is left of \<open>s\<close> after
  between \<open>lo\<close> and \<open>hi\<close> characters of class \<open>P\<close>.
\<close>

definition is_digit :: "char \<Rightarrow> bool" where
  "is_digit c = (c \<in> set ''0123456789'')"

definition is_alnum :: "char \<Rightarrow> bool" where
  "is_alnum c = (c \<in> set ''0123456789abcdefghijklmnopqrstuvwxyzABCDEFGHIJKLMNOPQRSTUVWXYZ'')"

definition is_alnum_space :: "char \<Rightarrow> bool" where
  "is_alnum_space c = (is_alnum c \<or> c = CHR '' '')"

fun rep_rests :: "(char \<Rightarrow> bool) \<Rightarrow> nat \<Rightarrow> nat \<Rightarrow> string \<Rightarrow> string list" where
  "rep_rests P lo 0 s = (if lo = 0 then [s] else [])"
| "rep_rests P lo (Suc h) [] = (if lo = 0 then [[]] else [])"
| "rep_rests P lo (Suc h) (c # cs) =
     (if P c then rep_rests P (lo - 1) h cs else []) @ (if lo = 0 then [c # cs] else [])"

type_synonym item = "(char \<Rightarrow> bool) \<times> nat \<times> nat"

fun seq_rests :: "item list \<Rightarrow> string \<Rightarrow> string list" where
  "seq_rests [] s = [s]"
| "seq_rests ((P, lo, hi) # is) s = concat (map (seq_rests is) (rep_rests P lo hi s))"

text \<open>
  The end anchors, without \<^verbatim>\<open>re.MULTILINE\<close>: \<^verbatim>\<open>\Z\<close> holds at the end of the string
  only; \<^verbatim>\<open>$\<close> holds at the end of the string and just before a newline that is the last
  character of the string.
\<close>

datatype anchor = EndZ | EndDollar

fun at_end :: "anchor \<Rightarrow> string \<Rightarrow> bool" where
  "at_end EndZ s = (s = [])"
| "at_end EndDollar s = (s = [] \<or> s = [CHR 0x0A])"

definition re_match :: "item list \<Rightarrow> anchor \<Rightarrow> jval \<Rightarrow> exn + bool" where
  \<comment> \<open>\<^verbatim>\<open>re.match(pattern, v)\<close> is not None; a \<open>v\<close> that is not a string raises TypeError\<close>
  "re_match items a v =
     (case v of
        JStr s \<Rightarrow> Inr (list_ex (at_end a) (seq_rests items s))
      | _ \<Rightarrow> Inl TypeError)"

definition account_num_pattern :: "item list \<times> anchor" where
  \<comment> \<open>\<^verbatim>\<open>\A[0-9]{10}\Z\<close>\<close>
  "account_num_pattern = ([(is_digit, 10, 10)], EndZ)"

definition routing_num_pattern :: "item list \<times> anchor" where
  \<comment> \<open>\<^verbatim>\<open>\A[0-9]{9}\Z\<close>\<close>
  "routing_num_pattern = ([(is_digit, 9, 9)], EndZ)"

definition label_pattern :: "item list \<times> anchor" where
  \<comment> \<open>\<^verbatim>\<open>^[0-9a-zA-Z][0-9a-zA-Z ]{0,29}$\<close>\<close>
  "label_pattern = ([(is_alnum, 1, 1), (is_alnum_space, 0, 29)], EndDollar)"

section \<open>The field validator\<close>

definition fields_required :: "string list" where
  "fields_required = [''label'', ''account_num'', ''routing_num'', ''is_external'']"

text \<open>
  The source's private functions drop their leading underscore here; \<^verbatim>\<open>_add_contact\<close>,
  whose name would then be the handler's, is \<open>add_contact_row\<close>.

  \<^verbatim>\<open>_validate_new_contact(req)\<close>: returns nothing, or raises. The lookups \<^verbatim>\<open>req[...]\<close>
  come after the presence check, in the order of the source.
\<close>

definition validate_new_contact :: "config \<Rightarrow> req \<Rightarrow> exn + unit" where
  "validate_new_contact cfg r =
     (if list_ex (\<lambda>f. r f = None) fields_required then Inl MissingField
      else
        bind_exn (getitem r ''account_num'') (\<lambda>acct.
        bind_exn (re_match (fst account_num_pattern) (snd account_num_pattern) acct) (\<lambda>m1.
        if \<not> m1 then Inl InvalidAccountNumber
        else
        bind_exn (getitem r ''routing_num'') (\<lambda>rout.
        bind_exn (re_match (fst routing_num_pattern) (snd routing_num_pattern) rout) (\<lambda>m2.
        if \<not> m2 then Inl InvalidRoutingNumber
        else
        bind_exn (getitem r ''is_external'') (\<lambda>ext.
        if truthy ext \<and> py_eq rout (LOCAL_ROUTING cfg) then Inl InvalidRoutingNumber
        else
        bind_exn (getitem r ''label'') (\<lambda>lab.
        bind_exn (re_match (fst label_pattern) (snd label_pattern) lab) (\<lambda>m3.
        if \<not> m3 then Inl InvalidLabel
        else Inr ()))))))))"

section \<open>The contact store\<close>

text \<open>
  A row of the \<^verbatim>\<open>contacts\<close> table, and a contact as \<^verbatim>\<open>_get_contacts\<close> returns it: a
  dict with the four keys \<^verbatim>\<open>label\<close>, \<^verbatim>\<open>account_num\<close>, \<^verbatim>\<open>routing_num\<close>,
  \<^verbatim>\<open>is_external\<close>. The table holds the values it was given.
\<close>

record contact =
  label :: jval
  account_num :: jval
  routing_num :: jval
  is_external :: jval

record row =
  row_username :: string
  row_label :: jval
  row_account_num :: jval
  row_routing_num :: jval
  row_is_external :: jval

datatype statement = Select string | Insert row

text \<open>
  The database connection \<^verbatim>\<open>DB_CONN\<close>: the rows of the table in stored order, the
  statements executed so far, and the outcomes to come: each \<^verbatim>\<open>execute\<close> takes the head
  of \<open>faults\<close>, and \<open>True\<close> there makes it raise \<^verbatim>\<open>SQLAlchemyError\<close> and leave the
  rows as they are. With no outcome scheduled the statement succeeds.
\<close>

record db_conn =
  rows :: "row list"
  faults :: "bool list"
  executed :: "statement list"

definition execute :: "db_conn \<Rightarrow> statement \<Rightarrow> (exn + row list) \<times> db_conn" where
  "execute db st =
     (let db' = db\<lparr>faults := tl (faults db), executed := executed db @ [st]\<rparr>
      in if faults db \<noteq> [] \<and> hd (faults db) then (Inl SQLAlchemyError, db')
         else (case st of
                 Select u \<Rightarrow> (Inr (filter (\<lambda>r. row_username r = u) (rows db)), db')
               | Insert r \<Rightarrow> (Inr [], db'\<lparr>rows := rows db @ [r]\<rparr>)))"

definition contact_of_row :: "row \<Rightarrow> contact" where
  "contact_of_row r =
     \<lparr>label = row_label r, account_num = row_account_num r,
      routing_num = row_routing_num r, is_external = row_is_external r\<rparr>"

definition get_contacts :: "db_conn \<Rightarrow> string \<Rightarrow> (exn + contact list) \<times> db_conn" where
  "get_contacts db username =
     (case execute db (Select username) of
        (Inl e, db') \<Rightarrow> (Inl e, db')
      | (Inr result, db') \<Rightarrow> (Inr (map contact_of_row result), db'))"

definition add_contact_row :: "db_conn \<Rightarrow> string \<Rightarrow> req \<Rightarrow> (exn + unit) \<times> db_conn" where
  \<comment> \<open>\<^verbatim>\<open>_add_contact(username, contact)\<close>\<close>
  "add_contact_row db username c =
     (case bind_exn (getitem c ''label'') (\<lambda>l.
           bind_exn (getitem c ''account_num'') (\<lambda>a.
           bind_exn (getitem c ''routing_num'') (\<lambda>rt.
           bind_exn (getitem c ''is_external'') (\<lambda>x.
           Inr \<lparr>row_username = username, row_label = l, row_account_num = a,
                row_routing_num = rt, row_is_external = x\<rparr>)))) of
        Inl e \<Rightarrow> (Inl e, db)
      | Inr data \<Rightarrow>
          (case execute db (Insert data) of
             (Inl e, db') \<Rightarrow> (Inl e, db')
           | (Inr _, db') \<Rightarrow> (Inr (), db')))"

section \<open>The authorization checker\<close>

text \<open>
  The condition of the first \<^verbatim>\<open>if\<close> of \<^verbatim>\<open>_check_contact_allowed\<close>; \<^verbatim>\<open>and\<close> evaluates
  its right operand only when the left one is true.
\<close>

definition self_reference :: "config \<Rightarrow> jval \<Rightarrow> req \<Rightarrow> exn + bool" where
  "self_reference cfg accountid r =
     bind_exn (getitem r ''account_num'') (\<lambda>a.
       if py_eq a accountid
       then bind_exn (getitem r ''routing_num'') (\<lambda>rt. Inr (py_eq rt (LOCAL_ROUTING cfg)))
       else Inr False)"

text \<open>The body of the \<^verbatim>\<open>for\<close> loop, for one contact of the list.\<close>

definition check_contact :: "req \<Rightarrow> contact \<Rightarrow> exn + unit" where
  "check_contact r c =
     bind_exn (getitem r ''account_num'') (\<lambda>a.
     bind_exn (if py_eq (account_num c) a
               then bind_exn (getitem r ''routing_num'') (\<lambda>rt. Inr (py_eq (routing_num c) rt))
               else Inr False) (\<lambda>same.
     if same then Inl DuplicateAccount
     else
     bind_exn (getitem r ''label'') (\<lambda>l.
     if py_eq (label c) l then Inl DuplicateLabel else Inr ())))"

text \<open>The loop: the contacts in the order \<^verbatim>\<open>_get_contacts\<close> returned them.\<close>

fun check_contacts :: "req \<Rightarrow> contact list \<Rightarrow> exn + unit" where
  "check_contacts r [] = Inr ()"
| "check_contacts r (c # cs) = bind_exn (check_contact r c) (\<lambda>_. check_contacts r cs)"

definition check_contact_allowed ::
  "config \<Rightarrow> db_conn \<Rightarrow> string \<Rightarrow> jval \<Rightarrow> req \<Rightarrow> (exn + unit) \<times> db_conn" where
  "check_contact_allowed cfg db username accountid r =
     (case self_reference cfg accountid r of
        Inl e \<Rightarrow> (Inl e, db)
      | Inr self \<Rightarrow>
          if self then (Inl SelfReference, db)
          else (case get_contacts db username of
                  (Inl e, db') \<Rightarrow> (Inl e, db')
                | (Inr cs, db') \<Rightarrow> (check_contacts r cs, db')))"

section \<open>The request handler\<close>

text \<open>A response: the \<^verbatim>\<open>msg\<close> of the JSON body (none for \<^verbatim>\<open>{}\<close>) and the status code.\<close>

type_synonym response = "string option \<times> nat"

text \<open>
  \<^verbatim>\<open>auth_header.split(" ")[-1]\<close>: what follows the last space of the header; the empty
  token when the header is absent or empty.
\<close>

definition token_of :: "string option \<Rightarrow> string" where
  "token_of auth_header =
     (case auth_header of
        None \<Rightarrow> []
      | Some h \<Rightarrow> if h = [] then [] else rev (takeWhile (\<lambda>c. c \<noteq> CHR '' '') (rev h)))"

text \<open>
  The sanitizer \<^verbatim>\<open>bleach.clean\<close> and the token verifier \<^verbatim>\<open>jwt.decode\<close> (with the
  configured public key) are libraries: the handler takes them as the parameters \<open>clean\<close>
  and \<open>decode\<close>, where \<open>decode token = None\<close> stands for \<^verbatim>\<open>InvalidTokenError\<close>. The
  request's JSON is taken to be an object.
\<close>

definition clean_req :: "(string \<Rightarrow> string) \<Rightarrow> req \<Rightarrow> req" where
  "clean_req clean body =
     (\<lambda>k. case body k of
             None \<Rightarrow> None
           | Some v \<Rightarrow> Some (case v of JStr s \<Rightarrow> JStr (clean s) | _ \<Rightarrow> v))"

text \<open>The \<^verbatim>\<open>try\<close> block of \<^verbatim>\<open>add_contact\<close>.\<close>

definition add_contact_try ::
  "config \<Rightarrow> (string \<Rightarrow> req option) \<Rightarrow> (string \<Rightarrow> string) \<Rightarrow> db_conn \<Rightarrow>
   string \<Rightarrow> string option \<Rightarrow> req \<Rightarrow> (exn + response) \<times> db_conn" where
  "add_contact_try cfg decode clean db username auth_header body =
     (case decode (token_of auth_header) of
        None \<Rightarrow> (Inl InvalidTokenError, db)
      | Some auth_payload \<Rightarrow>
          (case getitem auth_payload ''user'' of
             Inl e \<Rightarrow> (Inl e, db)
           | Inr user \<Rightarrow>
               if \<not> py_eq (JStr username) user then (Inl PermissionError, db)
               else
                 (let r = clean_req clean body in
                  case validate_new_contact cfg r of
                    Inl e \<Rightarrow> (Inl e, db)
                  | Inr _ \<Rightarrow>
                      (case getitem auth_payload ''acct'' of
                         Inl e \<Rightarrow> (Inl e, db)
                       | Inr acct \<Rightarrow>
                           (case check_contact_allowed cfg db username acct r of
                              (Inl e, db1) \<Rightarrow> (Inl e, db1)
                            | (Inr _, db1) \<Rightarrow>
                                (case add_contact_row db1 username r of
                                   (Inl e, db2) \<Rightarrow> (Inl e, db2)
                                 | (Inr _, db2) \<Rightarrow> (Inr (None, 201), db2)))))))"

text \<open>
  The \<^verbatim>\<open>except\<close> clauses of \<^verbatim>\<open>add_contact\<close>; an exception none of them names leaves
  the handler.
\<close>

fun add_contact_except :: "exn \<Rightarrow> exn + response" where
  "add_contact_except PermissionError = Inr (Some ''authentication denied'', 401)"
| "add_contact_except InvalidTokenError = Inr (Some ''authentication denied'', 401)"
| "add_contact_except (UserWarning m) = Inr (Some m, 400)"
| "add_contact_except (ValueError m) = Inr (Some m, 409)"
| "add_contact_except SQLAlchemyError = Inr (Some ''failed to add contact'', 500)"
| "add_contact_except e = Inl e"

definition add_contact ::
  "config \<Rightarrow> (string \<Rightarrow> req option) \<Rightarrow> (string \<Rightarrow> string) \<Rightarrow> db_conn \<Rightarrow>
   string \<Rightarrow> string option \<Rightarrow> req \<Rightarrow> (exn + response) \<times> db_conn" where
  "add_contact cfg decode clean db username auth_header body =
     (case add_contact_try cfg decode clean db username auth_header body of
        (Inl e, db') \<Rightarrow> (add_contact_except e, db')
      | (Inr resp, db') \<Rightarrow> (Inr resp, db'))"

section \<open>The specification's words\<close>

text \<open>
  An account number is ten digits and a routing number nine, as the data model has them.
\<close>

definition ten_digits :: "string \<Rightarrow> bool" where
  "ten_digits s = (length s = 10 \<and> list_all is_digit s)"

definition nine_digits :: "string \<Rightarrow> bool" where
  "nine_digits s = (length s = 9 \<and> list_all is_digit s)"

text \<open>
  The label language as the specification describes the pattern: the label starts with an
  alphanumeric character, has 1 to 30 characters in total, and only alphanumeric characters
  and spaces after the first.
\<close>

definition label_wellformed :: "string \<Rightarrow> bool" where
  "label_wellformed s =
     (case s of [] \<Rightarrow> False
      | c # cs \<Rightarrow> is_alnum c \<and> length cs \<le> 29 \<and> list_all is_alnum_space cs)"

text \<open>
  What the label pattern of the source accepts: a well-formed label, or a well-formed label
  followed by one newline (lemma \<open>label_pattern_match\<close> below).
\<close>

definition label_accepted :: "string \<Rightarrow> bool" where
  "label_accepted l =
     (label_wellformed l \<or> (l \<noteq> [] \<and> last l = CHR 0x0A \<and> label_wellformed (butlast l)))"

text \<open>
  Builders for concrete inputs: a request with the four fields, and a stored row of an
  internal account.
\<close>

definition candidate :: "jval \<Rightarrow> jval \<Rightarrow> jval \<Rightarrow> jval \<Rightarrow> req" where
  "candidate l a rt x =
     [''label'' \<mapsto> l, ''account_num'' \<mapsto> a, ''routing_num'' \<mapsto> rt, ''is_external'' \<mapsto> x]"

definition stored :: "string \<Rightarrow> string \<Rightarrow> string \<Rightarrow> string \<Rightarrow> row" where
  "stored u l a rt =
     \<lparr>row_username = u, row_label = JStr l, row_account_num = JStr a,
      row_routing_num = JStr rt, row_is_external = JBool False\<rparr>"

section \<open>What the patterns accept\<close>

lemma bind_exn_simps [simp]: "bind_exn (Inl e) f = Inl e" "bind_exn (Inr v) f = f v"
  by (simp_all add: bind_exn_def)

lemma getitem_Some [simp]: "r k = Some v \<Longrightarrow> getitem r k = Inr v"
  by (simp add: getitem_def)

lemma getitem_None [simp]: "r k = None \<Longrightarrow> getitem r k = Inl (KeyError k)"
  by (simp add: getitem_def)

lemma candidate_simps [simp]:
  "candidate l a rt x ''label'' = Some l"
  "candidate l a rt x ''account_num'' = Some a"
  "candidate l a rt x ''routing_num'' = Some rt"
  "candidate l a rt x ''is_external'' = Some x"
  by (simp_all add: candidate_def)

lemma rep_rests_set:
  "set (rep_rests P lo hi s) =
     {drop k s | k. lo \<le> k \<and> k \<le> hi \<and> k \<le> length s \<and> (\<forall>c \<in> set (take k s). P c)}"
proof (induction P lo hi s rule: rep_rests.induct)
  case (1 P lo s)
  then show ?case by auto
next
  case (2 P lo h)
  then show ?case by auto
next
  case (3 P lo h c cs)
  show ?case (is "?L = ?R")
  proof (intro set_eqI iffI)
    fix r assume "r \<in> ?L"
    then consider (a) "P c" "r \<in> set (rep_rests P (lo - 1) h cs)" | (b) "lo = 0" "r = c # cs"
      by (auto split: if_splits)
    then show "r \<in> ?R"
    proof cases
      case a
      then obtain k where k: "r = drop k cs" "lo - 1 \<le> k" "k \<le> h" "k \<le> length cs"
          "\<forall>c \<in> set (take k cs). P c"
        using 3 by auto
      have "r = drop (Suc k) (c # cs)" using k by simp
      moreover have "lo \<le> Suc k" "Suc k \<le> Suc h" "Suc k \<le> length (c # cs)" using k by auto
      moreover have "\<forall>x \<in> set (take (Suc k) (c # cs)). P x" using k a by auto
      ultimately show ?thesis by blast
    next
      case b
      have "r = drop 0 (c # cs)" using b by simp
      then show ?thesis using b by force
    qed
  next
    fix r assume "r \<in> ?R"
    then obtain k where k: "r = drop k (c # cs)" "lo \<le> k" "k \<le> Suc h" "k \<le> length (c # cs)"
        "\<forall>x \<in> set (take k (c # cs)). P x" by blast
    show "r \<in> ?L"
    proof (cases k)
      case 0
      then show ?thesis using k by simp
    next
      case (Suc j)
      then have "P c" using k by simp
      moreover have "r \<in> set (rep_rests P (lo - 1) h cs)"
        using k Suc 3[OF \<open>P c\<close>] by auto
      ultimately show ?thesis by simp
    qed
  qed
qed

lemma exact_rep_match:
  "list_ex (at_end EndZ) (seq_rests [(P, n, n)] s) \<longleftrightarrow> length s = n \<and> list_all P s"
proof -
  have "list_ex (at_end EndZ) (seq_rests [(P, n, n)] s) \<longleftrightarrow> [] \<in> set (rep_rests P n n s)"
    by (auto simp: list_ex_iff)
  also have "\<dots> \<longleftrightarrow> (\<exists>k. n \<le> k \<and> k \<le> n \<and> k \<le> length s \<and> (\<forall>c \<in> set (take k s). P c) \<and> drop k s = [])"
    unfolding rep_rests_set by auto
  also have "\<dots> \<longleftrightarrow> length s = n \<and> list_all P s"
    by (auto simp: list_all_iff)
  finally show ?thesis .
qed

lemma account_num_match: 
  "re_match (fst account_num_pattern) (snd account_num_pattern) (JStr s) = Inr (ten_digits s)"
  by (simp add: re_match_def account_num_pattern_def exact_rep_match ten_digits_def
      del: seq_rests.simps)

lemma routing_num_match: 
  "re_match (fst routing_num_pattern) (snd routing_num_pattern) (JStr s) = Inr (nine_digits s)"
  by (simp add: re_match_def routing_num_pattern_def exact_rep_match nine_digits_def
      del: seq_rests.simps)

lemma label_rests:
  "set (seq_rests (fst label_pattern) s) =
     {drop k cs | c cs k. s = c # cs \<and> is_alnum c \<and> k \<le> 29 \<and> k \<le> length cs \<and>
        (\<forall>x \<in> set (take k cs). is_alnum_space x)}"
proof -
  have one: "set (rep_rests is_alnum 1 1 s) = {cs | c cs. s = c # cs \<and> is_alnum c}"
    by (cases s) auto
  have "set (seq_rests (fst label_pattern) s) =
          (\<Union>r \<in> set (rep_rests is_alnum 1 1 s). set (rep_rests is_alnum_space 0 29 r))"
    by (simp add: label_pattern_def del: rep_rests.simps)
  also have "\<dots> = (\<Union>r \<in> {cs | c cs. s = c # cs \<and> is_alnum c}.
                      set (rep_rests is_alnum_space 0 29 r))"
    by (simp only: one)
  finally show ?thesis
    by (auto simp: rep_rests_set simp del: rep_rests.simps)
qed

lemma label_wellformed_iff:
  "label_wellformed s \<longleftrightarrow>
     (\<exists>c cs. s = c # cs \<and> is_alnum c \<and> length cs \<le> 29 \<and> (\<forall>x \<in> set cs. is_alnum_space x))"
  by (cases s) (simp_all add: label_wellformed_def list_all_iff)

lemma label_match:
  "list_ex (at_end EndDollar) (seq_rests (fst label_pattern) s) \<longleftrightarrow>
     label_wellformed s \<or> (\<exists>t. s = t @ [CHR 0x0A] \<and> label_wellformed t)"
  (is "?M \<longleftrightarrow> ?W \<or> ?N")
proof
  assume ?M
  then obtain r where r: "r \<in> set (seq_rests (fst label_pattern) s)" "r = [] \<or> r = [CHR 0x0A]"
    unfolding list_ex_iff by auto
  from r(1) obtain c cs k where k0: "r = drop k cs" "s = c # cs" "is_alnum c" "k \<le> 29"
      "k \<le> length cs" "\<forall>x \<in> set (take k cs). is_alnum_space x"
    unfolding label_rests by blast
  with r(2) have k: "s = c # cs" "is_alnum c" "k \<le> 29" "k \<le> length cs"
      "\<forall>x \<in> set (take k cs). is_alnum_space x" "drop k cs = [] \<or> drop k cs = [CHR 0x0A]"
    by simp_all
  from k(6) show "?W \<or> ?N"
  proof
    assume "drop k cs = []"
    then have "take k cs = cs" by simp
    then have "label_wellformed s"
      using k by (simp add: label_wellformed_iff)
    then show ?thesis ..
  next
    assume d: "drop k cs = [CHR 0x0A]"
    have cs: "cs = take k cs @ [CHR 0x0A]"
      using append_take_drop_id[of k cs] d by simp
    have "length (take k cs) \<le> 29" using k by simp
    then have "label_wellformed (c # take k cs)"
      using k by (simp add: label_wellformed_iff del: length_take)
    moreover have "s = (c # take k cs) @ [CHR 0x0A]" using k(1) cs by simp
    ultimately show ?thesis by blast
  qed
next
  assume "?W \<or> ?N"
  then show ?M
  proof
    assume ?W
    then obtain c cs where "s = c # cs" "is_alnum c" "length cs \<le> 29" "\<forall>x \<in> set cs. is_alnum_space x"
      unfolding label_wellformed_iff by blast
    then have "drop (length cs) cs \<in> set (seq_rests (fst label_pattern) s)"
      unfolding label_rests by (intro CollectI exI[of _ c] exI[of _ cs] exI[of _ "length cs"]) simp
    then show ?M by (auto simp: list_ex_iff)
  next
    assume ?N
    then obtain t c cs where t: "s = t @ [CHR 0x0A]" "t = c # cs" "is_alnum c" "length cs \<le> 29"
        "\<forall>x \<in> set cs. is_alnum_space x"
      unfolding label_wellformed_iff by blast
    then have "drop (length cs) (cs @ [CHR 0x0A]) \<in> set (seq_rests (fst label_pattern) s)"
      unfolding label_rests
      by (intro CollectI exI[of _ c] exI[of _ "cs @ [CHR 0x0A]"] exI[of _ "length cs"]) simp
    then show ?M by (auto simp: list_ex_iff)
  qed
qed

lemma label_pattern_match:
  "re_match (fst label_pattern) (snd label_pattern) (JStr s) = Inr (label_accepted s)"
proof -
  have "(\<exists>t. s = t @ [CHR 0x0A] \<and> label_wellformed t) \<longleftrightarrow>
        (s \<noteq> [] \<and> last s = CHR 0x0A \<and> label_wellformed (butlast s))"
    by (metis append_butlast_last_id butlast_snoc last_snoc snoc_eq_iff_butlast)
  then have "list_ex (at_end EndDollar) (seq_rests (fst label_pattern) s) = label_accepted s"
    unfolding label_match label_accepted_def by simp
  moreover have "snd label_pattern = EndDollar" by (simp add: label_pattern_def)
  ultimately show ?thesis by (simp add: re_match_def)
qed

lemma digits_eval [simp]:
  "ten_digits ''1234567890''" "ten_digits ''9876543210''" "nine_digits ''111000025''"
  "nine_digits ''123456789''" "\<not> ten_digits ''12345''" "\<not> nine_digits ''12345''"
  by (simp_all add: ten_digits_def nine_digits_def is_digit_def)

lemma re_match_cases: "re_match its a v = Inl TypeError \<or> (\<exists>b. re_match its a v = Inr b)"
  by (cases v) (simp_all add: re_match_def)

section \<open>The field validator: order of the checks\<close>

lemma validate_missing:
  "r ''label'' = None \<or> r ''account_num'' = None \<or> r ''routing_num'' = None \<or>
   r ''is_external'' = None \<Longrightarrow> validate_new_contact cfg r = Inl MissingField"
  by (auto simp: validate_new_contact_def fields_required_def)

lemma validate_present:
  assumes "r ''label'' = Some (JStr l)" "r ''account_num'' = Some (JStr a)"
    "r ''routing_num'' = Some (JStr rt)" "r ''is_external'' = Some x"
  shows "validate_new_contact cfg r =
     (if \<not> ten_digits a then Inl InvalidAccountNumber
      else if \<not> nine_digits rt then Inl InvalidRoutingNumber
      else if truthy x \<and> py_eq (JStr rt) (LOCAL_ROUTING cfg) then Inl InvalidRoutingNumber
      else if \<not> label_accepted l then Inl InvalidLabel
      else Inr ())"
  using assms
  by (simp add: validate_new_contact_def fields_required_def account_num_match routing_num_match
      label_pattern_match)

lemma validate_account_first:
  assumes "r ''label'' = Some l" "r ''account_num'' = Some (JStr a)"
    "r ''routing_num'' = Some rt" "r ''is_external'' = Some x"
  shows "validate_new_contact cfg r =
     (if \<not> ten_digits a then Inl InvalidAccountNumber
      else
        bind_exn (re_match (fst routing_num_pattern) (snd routing_num_pattern) rt) (\<lambda>m2.
        if \<not> m2 then Inl InvalidRoutingNumber
        else if truthy x \<and> py_eq rt (LOCAL_ROUTING cfg) then Inl InvalidRoutingNumber
        else
        bind_exn (re_match (fst label_pattern) (snd label_pattern) l) (\<lambda>m3.
        if \<not> m3 then Inl InvalidLabel
        else Inr ())))"
  using assms
  by (simp add: validate_new_contact_def fields_required_def account_num_match cong: if_cong)

text \<open>
  Claim C3. The validator checks presence, then the format of the account number, then the
  format of the routing number, then the external-routing rule, then the label, and reports
  the first check that fails. A request that lacks one of the four required fields fails
  with \<open>MissingField\<close> whatever the fields that are present hold; with the four fields
  present (the three textual ones being strings) the result is the first failure of the
  chain below, where the label check accepts \<open>label_accepted\<close>.
\<close>

theorem validate_check_order:
  "(r ''label'' = None \<or> r ''account_num'' = None \<or> r ''routing_num'' = None \<or>
    r ''is_external'' = None \<longrightarrow> validate_new_contact cfg r = Inl MissingField) \<and>
   (r ''label'' = Some (JStr l) \<and> r ''account_num'' = Some (JStr a) \<and>
    r ''routing_num'' = Some (JStr rt) \<and> r ''is_external'' = Some x \<longrightarrow>
    validate_new_contact cfg r =
     (if \<not> ten_digits a then Inl InvalidAccountNumber
      else if \<not> nine_digits rt then Inl InvalidRoutingNumber
      else if truthy x \<and> py_eq (JStr rt) (LOCAL_ROUTING cfg) then Inl InvalidRoutingNumber
      else if \<not> label_accepted l then Inl InvalidLabel
      else Inr ()))"
  using validate_missing[of r cfg] validate_present[of r l a rt x cfg] by blast

theorem validate_check_order_witness:
  "validate_new_contact \<lparr>LOCAL_ROUTING = JStr ''123456789''\<rparr>
     [''label'' \<mapsto> JStr '' bad'', ''account_num'' \<mapsto> JStr ''12345'',
      ''routing_num'' \<mapsto> JStr ''12345''] = Inl MissingField \<and>
   validate_new_contact \<lparr>LOCAL_ROUTING = JStr ''123456789''\<rparr>
     (candidate (JStr '' bad'') (JStr ''12345'') (JStr ''12345'') (JBool True))
     = Inl InvalidAccountNumber \<and>
   validate_new_contact \<lparr>LOCAL_ROUTING = JStr ''123456789''\<rparr>
     (candidate (JStr '' bad'') (JStr ''9876543210'') (JStr ''12345'') (JBool True))
     = Inl InvalidRoutingNumber \<and>
   validate_new_contact \<lparr>LOCAL_ROUTING = JStr ''123456789''\<rparr>
     (candidate (JStr '' bad'') (JStr ''9876543210'') (JStr ''123456789'') (JBool True))
     = Inl InvalidRoutingNumber \<and>
   validate_new_contact \<lparr>LOCAL_ROUTING = JStr ''123456789''\<rparr>
     (candidate (JStr '' bad'') (JStr ''9876543210'') (JStr ''111000025'') (JBool True))
     = Inl InvalidLabel \<and>
   validate_new_contact \<lparr>LOCAL_ROUTING = JStr ''123456789''\<rparr>
     (candidate (JStr ''Savings'') (JStr ''9876543210'') (JStr ''111000025'') (JBool True))
     = Inr ()"
proof -
  let ?cfg = "\<lparr>LOCAL_ROUTING = JStr ''123456789''\<rparr>"
  have bad: "\<not> label_accepted '' bad''" and good: "label_accepted ''Savings''"
    by (simp_all add: label_accepted_def label_wellformed_def is_alnum_def is_alnum_space_def)
  show ?thesis
    using validate_check_order
      [of "[''label'' \<mapsto> JStr '' bad'', ''account_num'' \<mapsto> JStr ''12345'',
            ''routing_num'' \<mapsto> JStr ''12345'']" ?cfg]
      validate_check_order
      [of "candidate (JStr '' bad'') (JStr ''12345'') (JStr ''12345'') (JBool True)"
          ?cfg "'' bad''" "''12345''" "''12345''" "JBool True"]
      validate_check_order
      [of "candidate (JStr '' bad'') (JStr ''9876543210'') (JStr ''12345'') (JBool True)"
          ?cfg "'' bad''" "''9876543210''" "''12345''" "JBool True"]
      validate_check_order
      [of "candidate (JStr '' bad'') (JStr ''9876543210'') (JStr ''123456789'') (JBool True)"
          ?cfg "'' bad''" "''9876543210''" "''123456789''" "JBool True"]
      validate_check_order
      [of "candidate (JStr '' bad'') (JStr ''9876543210'') (JStr ''111000025'') (JBool True)"
          ?cfg "'' bad''" "''9876543210''" "''111000025''" "JBool True"]
      validate_check_order
      [of "candidate (JStr ''Savings'') (JStr ''9876543210'') (JStr ''111000025'') (JBool True)"
          ?cfg "''Savings''" "''9876543210''" "''111000025''" "JBool True"]
      bad good
    by simp
qed

text \<open>
  Claim C8. With the four fields present, the validator fails with
  \<open>InvalidAccountNumber\<close> exactly when the account number is not a string of exactly ten
  digits, whatever the other three fields hold.
\<close>

theorem account_num_check_iff:
  assumes "r ''label'' = Some l" "r ''account_num'' = Some (JStr a)"
    "r ''routing_num'' = Some rt" "r ''is_external'' = Some x"
  shows "validate_new_contact cfg r = Inl InvalidAccountNumber \<longleftrightarrow>
           \<not> (length a = 10 \<and> (\<forall>c \<in> set a. is_digit c))"
proof (cases "ten_digits a")
  case False
  then show ?thesis
    using validate_account_first[OF assms, of cfg] by (simp add: ten_digits_def list_all_iff)
next
  case True
  have "validate_new_contact cfg r \<noteq> Inl InvalidAccountNumber"
    using re_match_cases[of "fst routing_num_pattern" "snd routing_num_pattern" rt]
      re_match_cases[of "fst label_pattern" "snd label_pattern" l] True
    unfolding validate_account_first[OF assms, of cfg]
    by (auto simp: InvalidAccountNumber_def InvalidRoutingNumber_def InvalidLabel_def
        split: if_splits)
  with True show ?thesis by (simp add: ten_digits_def list_all_iff)
qed

theorem account_num_check_iff_witness:
  "validate_new_contact \<lparr>LOCAL_ROUTING = JStr ''123456789''\<rparr>
     (candidate (JStr ''Savings'') (JStr ''12345'') (JStr ''111000025'') (JBool True))
     = Inl InvalidAccountNumber \<and>
   validate_new_contact \<lparr>LOCAL_ROUTING = JStr ''123456789''\<rparr>
     (candidate (JStr ''Savings'') (JStr ''9876543210'') (JInt 5) JNull)
     \<noteq> Inl InvalidAccountNumber"
  using account_num_check_iff
      [of "candidate (JStr ''Savings'') (JStr ''12345'') (JStr ''111000025'') (JBool True)"
          "JStr ''Savings''" "''12345''" "JStr ''111000025''" "JBool True"
          "\<lparr>LOCAL_ROUTING = JStr ''123456789''\<rparr>"]
    account_num_check_iff
      [of "candidate (JStr ''Savings'') (JStr ''9876543210'') (JInt 5) JNull"
          "JStr ''Savings''" "''9876543210''" "JInt 5" "JNull"
          "\<lparr>LOCAL_ROUTING = JStr ''123456789''\<rparr>"]
  by (simp add: is_digit_def)

text \<open>
  Claim C5. A request with all fields present, a valid account number, \<open>is_external\<close>
  true and a routing number equal to the local routing number fails with
  \<open>InvalidRoutingNumber\<close>, whether or not that routing number is nine digits.
\<close>

theorem external_local_routing_rejected:
  assumes "r ''label'' = Some l" "r ''account_num'' = Some (JStr a)" "ten_digits a"
    "r ''routing_num'' = Some (JStr rt)" "r ''is_external'' = Some (JBool True)"
    "LOCAL_ROUTING cfg = JStr rt"
  shows "validate_new_contact cfg r = Inl InvalidRoutingNumber"
  using assms
  by (simp add: validate_new_contact_def fields_required_def account_num_match routing_num_match)

theorem external_local_routing_rejected_witness:
  "validate_new_contact \<lparr>LOCAL_ROUTING = JStr ''123456789''\<rparr>
     (candidate (JStr ''Savings'') (JStr ''9876543210'') (JStr ''123456789'') (JBool True))
     = Inl InvalidRoutingNumber \<and>
   validate_new_contact \<lparr>LOCAL_ROUTING = JStr ''local''\<rparr>
     (candidate (JStr ''Savings'') (JStr ''9876543210'') (JStr ''local'') (JBool True))
     = Inl InvalidRoutingNumber"
  using external_local_routing_rejected
      [of "candidate (JStr ''Savings'') (JStr ''9876543210'') (JStr ''123456789'') (JBool True)"
          "JStr ''Savings''" "''9876543210''" "''123456789''"
          "\<lparr>LOCAL_ROUTING = JStr ''123456789''\<rparr>"]
    external_local_routing_rejected
      [of "candidate (JStr ''Savings'') (JStr ''9876543210'') (JStr ''local'') (JBool True)"
          "JStr ''Savings''" "''9876543210''" "''local''"
          "\<lparr>LOCAL_ROUTING = JStr ''local''\<rparr>"]
  by simp

text \<open>
  Claim C2. The claim has every label of more than 30 characters fail with
  \<open>InvalidLabel\<close>. The comment of the source asks for alphanumerics and spaces only, and
  the patterns of the account and routing numbers end in \<^verbatim>\<open>\Z\<close>; the label pattern ends
  in \<^verbatim>\<open>$\<close>, which also holds before a final newline. The label of 30 letters and a
  newline, 31 characters, passes the validator.
\<close>

theorem label_of_31_characters_accepted:
  "length ''aaaaaaaaaaaaaaaaaaaaaaaaaaaaaa\<newline>'' = 31 \<and>
   validate_new_contact \<lparr>LOCAL_ROUTING = JStr ''123456789''\<rparr>
     (candidate (JStr ''aaaaaaaaaaaaaaaaaaaaaaaaaaaaaa\<newline>'') (JStr ''9876543210'')
        (JStr ''111000025'') (JBool True)) = Inr ()"
  by code_simp

section \<open>The authorization checker\<close>

lemma check_contact_eval:
  assumes "r ''account_num'' = Some a" "r ''routing_num'' = Some rt" "r ''label'' = Some l"
  shows "check_contact r c =
     (if py_eq (account_num c) a \<and> py_eq (routing_num c) rt then Inl DuplicateAccount
      else if py_eq (label c) l then Inl DuplicateLabel
      else Inr ())"
  using assms by (simp add: check_contact_def)

lemma self_reference_eval:
  assumes "r ''account_num'' = Some a" "r ''routing_num'' = Some rt"
  shows "self_reference cfg accountid r =
           Inr (py_eq a accountid \<and> py_eq rt (LOCAL_ROUTING cfg))"
  using assms by (simp add: self_reference_def)

lemma check_contacts_clear:
  assumes "r ''account_num'' = Some a" "r ''routing_num'' = Some rt" "r ''label'' = Some l"
    and "\<forall>c \<in> set cs. \<not> (py_eq (account_num c) a \<and> py_eq (routing_num c) rt) \<and>
                       \<not> py_eq (label c) l"
  shows "check_contacts r cs = Inr ()"
  using assms(4)
proof (induction cs)
  case Nil
  show ?case by simp
next
  case (Cons c cs)
  have "check_contact r c = Inr ()"
    using Cons.prems by (simp add: check_contact_eval[OF assms(1-3)])
  with Cons show ?case by simp
qed

lemma check_contacts_skip:
  assumes "r ''account_num'' = Some a" "r ''routing_num'' = Some rt" "r ''label'' = Some l"
    and "\<forall>c \<in> set pre. \<not> (py_eq (account_num c) a \<and> py_eq (routing_num c) rt) \<and>
                        \<not> py_eq (label c) l"
  shows "check_contacts r (pre @ cs) = check_contacts r cs"
  using assms(4)
proof (induction pre)
  case Nil
  show ?case by simp
next
  case (Cons c pre)
  have "check_contact r c = Inr ()"
    using Cons.prems by (simp add: check_contact_eval[OF assms(1-3)])
  with Cons show ?case by simp
qed

lemma get_contacts_effect:
  assumes "get_contacts db u = (res, db')"
  shows "rows db' = rows db" "executed db' = executed db @ [Select u]"
    "faults db' = tl (faults db)"
  using assms
  by (auto simp: get_contacts_def execute_def Let_def split: if_splits sum.splits prod.splits)

lemma get_contacts_error:
  assumes "get_contacts db u = (Inl e, db')"
  shows "e = SQLAlchemyError"
  using assms
  by (auto simp: get_contacts_def execute_def Let_def split: if_splits sum.splits prod.splits)

lemma check_contact_allowed_db:
  assumes "check_contact_allowed cfg db u acct r = (res, db')"
  shows "rows db' = rows db \<and> (executed db' = executed db \<or> executed db' = executed db @ [Select u])"
proof (cases "self_reference cfg acct r")
  case (Inl e)
  with assms show ?thesis by (simp add: check_contact_allowed_def)
next
  case (Inr self)
  show ?thesis
  proof (cases self)
    case True
    with Inr assms show ?thesis by (simp add: check_contact_allowed_def)
  next
    case False
    obtain g db1 where g: "get_contacts db u = (g, db1)" by (cases "get_contacts db u")
    then have "db' = db1"
      using assms Inr False by (simp add: check_contact_allowed_def split: sum.splits)
    with get_contacts_effect[OF g] show ?thesis by simp
  qed
qed

text \<open>
  Claim C4. A candidate whose account number equals the owner's and whose routing number
  equals the local routing number is refused with \<open>SelfReference\<close>, whatever the store
  holds, the empty contact list included.
\<close>

theorem self_reference_rejected:
  assumes "r ''account_num'' = Some a" "r ''routing_num'' = Some rt"
    and "py_eq a accountid" "py_eq rt (LOCAL_ROUTING cfg)"
  shows "fst (check_contact_allowed cfg db username accountid r) = Inl SelfReference"
  using assms
  by (simp add: check_contact_allowed_def self_reference_eval[OF assms(1,2)])

theorem self_reference_rejected_witness:
  "fst (check_contact_allowed \<lparr>LOCAL_ROUTING = JStr ''123456789''\<rparr>
          \<lparr>rows = [], faults = [], executed = []\<rparr> ''alice'' (JStr ''1234567890'')
          (candidate (JStr ''me'') (JStr ''1234567890'') (JStr ''123456789'') (JBool False)))
     = Inl SelfReference"
  using self_reference_rejected
    [of "candidate (JStr ''me'') (JStr ''1234567890'') (JStr ''123456789'') (JBool False)"
        "JStr ''1234567890''" "JStr ''123456789''" "JStr ''1234567890''"
        "\<lparr>LOCAL_ROUTING = JStr ''123456789''\<rparr>"
        "\<lparr>rows = [], faults = [], executed = []\<rparr>" "''alice''"]
  by simp

text \<open>
  Claim C10. The self-reference check comes before the read of the store: for a
  self-referencing candidate the checker returns \<open>SelfReference\<close> and leaves the
  connection as it was, no statement executed and no scheduled outcome consumed. So
  \<open>SelfReference\<close> is reported also where the fetch would raise, as in the witness.
\<close>

theorem self_reference_before_fetch:
  assumes "r ''account_num'' = Some a" "r ''routing_num'' = Some rt"
    and "py_eq a accountid" "py_eq rt (LOCAL_ROUTING cfg)"
  shows "check_contact_allowed cfg db username accountid r = (Inl SelfReference, db)"
  using assms
  by (simp add: check_contact_allowed_def self_reference_eval[OF assms(1,2)])

theorem self_reference_before_fetch_witness:
  "fst (get_contacts \<lparr>rows = [], faults = [True], executed = []\<rparr> ''alice'')
     = Inl SQLAlchemyError \<and>
   check_contact_allowed \<lparr>LOCAL_ROUTING = JStr ''123456789''\<rparr>
     \<lparr>rows = [], faults = [True], executed = []\<rparr> ''alice'' (JStr ''1234567890'')
     (candidate (JStr ''me'') (JStr ''1234567890'') (JStr ''123456789'') (JBool False))
     = (Inl SelfReference, \<lparr>rows = [], faults = [True], executed = []\<rparr>)"
  using self_reference_before_fetch
    [of "candidate (JStr ''me'') (JStr ''1234567890'') (JStr ''123456789'') (JBool False)"
        "JStr ''1234567890''" "JStr ''123456789''" "JStr ''1234567890''"
        "\<lparr>LOCAL_ROUTING = JStr ''123456789''\<rparr>"
        "\<lparr>rows = [], faults = [True], executed = []\<rparr>" "''alice''"]
  by (simp add: get_contacts_def execute_def)

text \<open>
  Claim C9. For a candidate that is not a self-reference, when the fetch returns a contact
  list, empty or not, in which no entry has the candidate's account and routing number and
  no entry has its label, the checker returns normally.
\<close>

theorem no_overlap_allowed:
  assumes "r ''account_num'' = Some a" "r ''routing_num'' = Some rt" "r ''label'' = Some l"
    and "\<not> (py_eq a accountid \<and> py_eq rt (LOCAL_ROUTING cfg))"
    and "get_contacts db username = (Inr cs, db')"
    and "\<forall>c \<in> set cs. \<not> (py_eq (account_num c) a \<and> py_eq (routing_num c) rt) \<and>
                       \<not> py_eq (label c) l"
  shows "check_contact_allowed cfg db username accountid r = (Inr (), db')"
proof -
  have "self_reference cfg accountid r = Inr False"
    using assms(4) by (simp add: self_reference_eval[OF assms(1,2)])
  then show ?thesis
    using assms(5) check_contacts_clear[OF assms(1-3,6)]
    by (simp add: check_contact_allowed_def)
qed

theorem no_overlap_allowed_witness:
  "check_contact_allowed \<lparr>LOCAL_ROUTING = JStr ''123456789''\<rparr>
     \<lparr>rows = [stored ''alice'' ''bob'' ''1111111111'' ''222222222''], faults = [],
      executed = []\<rparr> ''alice'' (JStr ''1234567890'')
     (candidate (JStr ''carol'') (JStr ''3333333333'') (JStr ''444444444'') (JBool True))
     = (Inr (), \<lparr>rows = [stored ''alice'' ''bob'' ''1111111111'' ''222222222''], faults = [],
                executed = [Select ''alice'']\<rparr>)"
proof -
  let ?db = "\<lparr>rows = [stored ''alice'' ''bob'' ''1111111111'' ''222222222''], faults = [],
      executed = []\<rparr>"
  let ?r = "candidate (JStr ''carol'') (JStr ''3333333333'') (JStr ''444444444'') (JBool True)"
  have g: "get_contacts ?db ''alice'' =
      (Inr [contact_of_row (stored ''alice'' ''bob'' ''1111111111'' ''222222222'')],
       ?db\<lparr>faults := [], executed := [Select ''alice'']\<rparr>)"
    by (simp add: get_contacts_def execute_def stored_def)
  show ?thesis
    using no_overlap_allowed
      [of ?r "JStr ''3333333333''" "JStr ''444444444''" "JStr ''carol''" "JStr ''1234567890''"
          "\<lparr>LOCAL_ROUTING = JStr ''123456789''\<rparr>" ?db "''alice''", OF _ _ _ _ g]
    by (simp add: contact_of_row_def stored_def)
qed

text \<open>
  Claim C1 says that \<open>DuplicateAccount\<close> is reported whenever some entry has the
  candidate's account and routing number, also when an earlier entry has its label. The
  source makes one pass over the list and tests both rules at each entry, so the entry that
  comes first decides: with the label match stored first, the report is
  \<open>DuplicateLabel\<close>.
\<close>

theorem label_before_account_counterexample:
  "fst (check_contact_allowed \<lparr>LOCAL_ROUTING = JStr ''123456789''\<rparr>
          \<lparr>rows = [stored ''alice'' ''bob'' ''2222222222'' ''333333333'',
                   stored ''alice'' ''carol'' ''1111111111'' ''222222222''],
           faults = [], executed = []\<rparr> ''alice'' (JStr ''1234567890'')
          (candidate (JStr ''bob'') (JStr ''1111111111'') (JStr ''222222222'') (JBool False)))
     = Inl DuplicateLabel \<and>
   DuplicateLabel \<noteq> DuplicateAccount"
  by (simp add: check_contact_allowed_def self_reference_def get_contacts_def execute_def
      stored_def contact_of_row_def check_contact_def DuplicateLabel_def DuplicateAccount_def)

text \<open>
  Claim C1, amended. For a candidate that is not a self-reference, the checker reports the
  violation of the first entry, in stored order, that has the candidate's account and
  routing number or its label: \<open>DuplicateAccount\<close> when that entry has the account and
  routing number, \<open>DuplicateLabel\<close> otherwise. The account rule comes before the label
  rule within one entry only.
\<close>

theorem first_conflict_reported:
  assumes "r ''account_num'' = Some a" "r ''routing_num'' = Some rt" "r ''label'' = Some l"
    and "\<not> (py_eq a accountid \<and> py_eq rt (LOCAL_ROUTING cfg))"
    and "get_contacts db username = (Inr (pre @ e # post), db')"
    and "\<forall>c \<in> set pre. \<not> (py_eq (account_num c) a \<and> py_eq (routing_num c) rt) \<and>
                        \<not> py_eq (label c) l"
    and "(py_eq (account_num e) a \<and> py_eq (routing_num e) rt) \<or> py_eq (label e) l"
  shows "check_contact_allowed cfg db username accountid r =
           (Inl (if py_eq (account_num e) a \<and> py_eq (routing_num e) rt
                 then DuplicateAccount else DuplicateLabel), db')"
proof -
  have "check_contacts r (pre @ e # post) = bind_exn (check_contact r e) (\<lambda>_. check_contacts r post)"
    using check_contacts_skip[OF assms(1-3,6)] by simp
  also have "\<dots> = Inl (if py_eq (account_num e) a \<and> py_eq (routing_num e) rt
                 then DuplicateAccount else DuplicateLabel)"
    using assms(7) by (auto simp: check_contact_eval[OF assms(1-3)])
  finally have loop: "check_contacts r (pre @ e # post) =
      Inl (if py_eq (account_num e) a \<and> py_eq (routing_num e) rt
           then DuplicateAccount else DuplicateLabel)" .
  have "self_reference cfg accountid r = Inr False"
    using assms(4) by (simp add: self_reference_eval[OF assms(1,2)])
  then show ?thesis
    using assms(5) loop by (simp add: check_contact_allowed_def)
qed

theorem first_conflict_reported_witness:
  "check_contact_allowed \<lparr>LOCAL_ROUTING = JStr ''123456789''\<rparr>
     \<lparr>rows = [stored ''alice'' ''dave'' ''5555555555'' ''666666666'',
              stored ''alice'' ''bob'' ''2222222222'' ''333333333'',
              stored ''alice'' ''carol'' ''1111111111'' ''222222222''],
      faults = [], executed = []\<rparr> ''alice'' (JStr ''1234567890'')
     (candidate (JStr ''bob'') (JStr ''1111111111'') (JStr ''222222222'') (JBool False))
     = (Inl DuplicateLabel,
        \<lparr>rows = [stored ''alice'' ''dave'' ''5555555555'' ''666666666'',
                 stored ''alice'' ''bob'' ''2222222222'' ''333333333'',
                 stored ''alice'' ''carol'' ''1111111111'' ''222222222''],
         faults = [], executed = [Select ''alice'']\<rparr>) \<and>
   check_contact_allowed \<lparr>LOCAL_ROUTING = JStr ''123456789''\<rparr>
     \<lparr>rows = [stored ''alice'' ''dave'' ''5555555555'' ''666666666'',
              stored ''alice'' ''carol'' ''1111111111'' ''222222222'',
              stored ''alice'' ''bob'' ''2222222222'' ''333333333''],
      faults = [], executed = []\<rparr> ''alice'' (JStr ''1234567890'')
     (candidate (JStr ''bob'') (JStr ''1111111111'') (JStr ''222222222'') (JBool False))
     = (Inl DuplicateAccount,
        \<lparr>rows = [stored ''alice'' ''dave'' ''5555555555'' ''666666666'',
                 stored ''alice'' ''carol'' ''1111111111'' ''222222222'',
                 stored ''alice'' ''bob'' ''2222222222'' ''333333333''],
         faults = [], executed = [Select ''alice'']\<rparr>)"
proof -
  let ?dave = "stored ''alice'' ''dave'' ''5555555555'' ''666666666''"
  let ?bob = "stored ''alice'' ''bob'' ''2222222222'' ''333333333''"
  let ?carol = "stored ''alice'' ''carol'' ''1111111111'' ''222222222''"
  let ?r = "candidate (JStr ''bob'') (JStr ''1111111111'') (JStr ''222222222'') (JBool False)"
  let ?cfg = "\<lparr>LOCAL_ROUTING = JStr ''123456789''\<rparr>"
  let ?db1 = "\<lparr>rows = [?dave, ?bob, ?carol], faults = [], executed = []\<rparr>"
  let ?db2 = "\<lparr>rows = [?dave, ?carol, ?bob], faults = [], executed = []\<rparr>"
  have g1: "get_contacts ?db1 ''alice'' =
      (Inr ([contact_of_row ?dave] @ contact_of_row ?bob # [contact_of_row ?carol]),
       ?db1\<lparr>faults := [], executed := [Select ''alice'']\<rparr>)"
    by (simp add: get_contacts_def execute_def stored_def)
  have g2: "get_contacts ?db2 ''alice'' =
      (Inr ([contact_of_row ?dave] @ contact_of_row ?carol # [contact_of_row ?bob]),
       ?db2\<lparr>faults := [], executed := [Select ''alice'']\<rparr>)"
    by (simp add: get_contacts_def execute_def stored_def)
  show ?thesis
    using first_conflict_reported
      [of ?r "JStr ''1111111111''" "JStr ''222222222''" "JStr ''bob''" "JStr ''1234567890''"
          ?cfg ?db1 "''alice''", OF _ _ _ _ g1]
      first_conflict_reported
      [of ?r "JStr ''1111111111''" "JStr ''222222222''" "JStr ''bob''" "JStr ''1234567890''"
          ?cfg ?db2 "''alice''", OF _ _ _ _ g2]
    by (simp add: contact_of_row_def stored_def)
qed

section \<open>The request handler\<close>

lemma add_contact_row_error:
  assumes "add_contact_row db u r = (Inl e, db')"
  shows "e = SQLAlchemyError \<or> (\<exists>k. e = KeyError k)"
  using assms
  by (auto simp: add_contact_row_def bind_exn_def getitem_def execute_def Let_def
      split: option.splits sum.splits if_splits prod.splits)

lemma add_contact_try_raises:
  assumes "add_contact_try cfg decode clean db username auth_header body = (Inl e, db')"
    and "(\<exists>m. e = UserWarning m) \<or> (\<exists>m. e = ValueError m)"
  shows "rows db' = rows db \<and>
         (executed db' = executed db \<or> executed db' = executed db @ [Select username])"
proof -
  from assms(1) consider
      (early) "db' = db"
    | (check) acct r where "check_contact_allowed cfg db username acct r = (Inl e, db')"
    | (ins) acct r x db1 where "check_contact_allowed cfg db username acct r = (Inr x, db1)"
        "add_contact_row db1 username r = (Inl e, db')"
    by (auto simp: add_contact_try_def Let_def
        split: option.splits sum.splits if_splits prod.splits)
  then show ?thesis
  proof cases
    case early
    then show ?thesis by simp
  next
    case check
    then show ?thesis by (rule check_contact_allowed_db)
  next
    case ins
    with add_contact_row_error[OF ins(2)] assms(2) show ?thesis by auto
  qed
qed

text \<open>
  Claim C6. When \<^verbatim>\<open>add_contact\<close> answers 400 (a field error) or 409 (an authorization
  error), the rows of the table are those before the request, and the only statement that
  may have been executed is the select of the caller's contacts: no insert was made.
\<close>

theorem failed_add_contact_no_insert:
  assumes "add_contact cfg decode clean db username auth_header body = (Inr (msg, code), db')"
    and "code = 400 \<or> code = 409"
  shows "rows db' = rows db \<and>
         (executed db' = executed db \<or> executed db' = executed db @ [Select username])"
proof -
  obtain t where t: "add_contact_try cfg decode clean db username auth_header body = (t, db')"
    using assms(1) by (auto simp: add_contact_def split: prod.splits sum.splits)
  show ?thesis
  proof (cases t)
    case (Inl e)
    then have "add_contact_except e = Inr (msg, code)"
      using assms(1) t by (simp add: add_contact_def)
    with assms(2) have "(\<exists>m. e = UserWarning m) \<or> (\<exists>m. e = ValueError m)"
      by (cases e) auto
    with t Inl show ?thesis using add_contact_try_raises by blast
  next
    case (Inr resp)
    then have "resp = (msg, code)" using assms(1) t by (simp add: add_contact_def)
    moreover have "snd resp = 201"
      using t Inr
      by (auto simp: add_contact_try_def Let_def
          split: option.splits sum.splits if_splits prod.splits)
    ultimately show ?thesis using assms(2) by simp
  qed
qed

theorem failed_add_contact_no_insert_witness:
  "add_contact \<lparr>LOCAL_ROUTING = JStr ''123456789''\<rparr>
     (\<lambda>t. Some [''user'' \<mapsto> JStr ''alice'', ''acct'' \<mapsto> JStr ''1234567890''])
     (\<lambda>s. s)
     \<lparr>rows = [stored ''alice'' ''bob'' ''1111111111'' ''222222222''], faults = [],
      executed = []\<rparr>
     ''alice'' (Some ''Bearer token'')
     (candidate (JStr ''bob'') (JStr ''3333333333'') (JStr ''444444444'') (JBool True))
   = (Inr (Some ''contact already exists with that label'', 409),
      \<lparr>rows = [stored ''alice'' ''bob'' ''1111111111'' ''222222222''], faults = [],
       executed = [Select ''alice'']\<rparr>) \<and>
   rows \<lparr>rows = [stored ''alice'' ''bob'' ''1111111111'' ''222222222''], faults = [],
       executed = [Select ''alice'']\<rparr> = [stored ''alice'' ''bob'' ''1111111111'' ''222222222'']"
proof -
  let ?db = "\<lparr>rows = [stored ''alice'' ''bob'' ''1111111111'' ''222222222''], faults = [],
      executed = []\<rparr>"
  let ?r = "candidate (JStr ''bob'') (JStr ''3333333333'') (JStr ''444444444'') (JBool True)"
  have c: "clean_req (\<lambda>s. s) ?r = ?r"
    by (rule ext) (simp add: clean_req_def candidate_def)
  have v: "validate_new_contact \<lparr>LOCAL_ROUTING = JStr ''123456789''\<rparr> ?r = Inr ()"
    by code_simp
  have a: "add_contact \<lparr>LOCAL_ROUTING = JStr ''123456789''\<rparr>
     (\<lambda>t. Some [''user'' \<mapsto> JStr ''alice'', ''acct'' \<mapsto> JStr ''1234567890''])
     (\<lambda>s. s) ?db ''alice'' (Some ''Bearer token'') ?r
   = (Inr (Some ''contact already exists with that label'', 409),
      ?db\<lparr>executed := [Select ''alice'']\<rparr>)"
    by (simp add: add_contact_def add_contact_try_def c v check_contact_allowed_def
        self_reference_def get_contacts_def execute_def stored_def contact_of_row_def
        check_contact_def DuplicateLabel_def)
  show ?thesis
    using failed_add_contact_no_insert[OF a] a by simp
qed

text \<open>
  Claim C7. When the fetch inside the checker raises, for an authenticated request that
  passed validation and is not a self-reference, the checker raises the same exception, a
  \<open>SQLAlchemyError\<close>; the handler answers 500 with its own message, neither a duplicate
  error nor success, and the rows are unchanged.
\<close>

theorem fetch_error_propagates:
  assumes "decode (token_of auth_header) = Some p"
    and "p ''user'' = Some user" "py_eq (JStr username) user" "p ''acct'' = Some acct"
    and "validate_new_contact cfg (clean_req clean body) = Inr ()"
    and "self_reference cfg acct (clean_req clean body) = Inr False"
    and "get_contacts db username = (Inl e, db1)"
  shows "check_contact_allowed cfg db username acct (clean_req clean body) = (Inl e, db1) \<and>
         e = SQLAlchemyError \<and>
         add_contact cfg decode clean db username auth_header body =
           (Inr (Some ''failed to add contact'', 500), db1) \<and>
         rows db1 = rows db"
proof -
  have c: "check_contact_allowed cfg db username acct (clean_req clean body) = (Inl e, db1)"
    using assms(6,7) by (simp add: check_contact_allowed_def)
  have e: "e = SQLAlchemyError" using assms(7) by (rule get_contacts_error)
  have "add_contact_try cfg decode clean db username auth_header body = (Inl e, db1)"
    using assms(1-5) c by (simp add: add_contact_try_def Let_def)
  then have "add_contact cfg decode clean db username auth_header body =
           (Inr (Some ''failed to add contact'', 500), db1)"
    using e by (simp add: add_contact_def)
  with c e get_contacts_effect(1)[OF assms(7)] show ?thesis by simp
qed

theorem fetch_error_propagates_witness:
  "get_contacts \<lparr>rows = [stored ''alice'' ''bob'' ''1111111111'' ''222222222''],
                 faults = [True], executed = []\<rparr> ''alice''
   = (Inl SQLAlchemyError,
      \<lparr>rows = [stored ''alice'' ''bob'' ''1111111111'' ''222222222''], faults = [],
       executed = [Select ''alice'']\<rparr>) \<and>
   add_contact \<lparr>LOCAL_ROUTING = JStr ''123456789''\<rparr>
     (\<lambda>t. Some [''user'' \<mapsto> JStr ''alice'', ''acct'' \<mapsto> JStr ''1234567890''])
     (\<lambda>s. s)
     \<lparr>rows = [stored ''alice'' ''bob'' ''1111111111'' ''222222222''], faults = [True],
      executed = []\<rparr>
     ''alice'' (Some ''Bearer token'')
     (candidate (JStr ''bob'') (JStr ''1111111111'') (JStr ''222222222'') (JBool True))
   = (Inr (Some ''failed to add contact'', 500),
      \<lparr>rows = [stored ''alice'' ''bob'' ''1111111111'' ''222222222''], faults = [],
       executed = [Select ''alice'']\<rparr>)"
proof -
  let ?db = "\<lparr>rows = [stored ''alice'' ''bob'' ''1111111111'' ''222222222''], faults = [True],
      executed = []\<rparr>"
  let ?r = "candidate (JStr ''bob'') (JStr ''1111111111'') (JStr ''222222222'') (JBool True)"
  let ?cfg = "\<lparr>LOCAL_ROUTING = JStr ''123456789''\<rparr>"
  let ?p = "[''user'' \<mapsto> JStr ''alice'', ''acct'' \<mapsto> JStr ''1234567890'']"
  have c: "clean_req (\<lambda>s. s) ?r = ?r"
    by (rule ext) (simp add: clean_req_def candidate_def)
  have v: "validate_new_contact ?cfg (clean_req (\<lambda>s. s) ?r) = Inr ()"
    unfolding c by code_simp
  have s: "self_reference ?cfg (JStr ''1234567890'') (clean_req (\<lambda>s. s) ?r) = Inr False"
    unfolding c by (simp add: self_reference_def)
  have g: "get_contacts ?db ''alice'' =
             (Inl SQLAlchemyError, ?db\<lparr>faults := [], executed := [Select ''alice'']\<rparr>)"
    by (simp add: get_contacts_def execute_def)
  have d: "(\<lambda>t. Some ?p) (token_of (Some ''Bearer token'')) = Some ?p" by simp
  show ?thesis
    using fetch_error_propagates
      [of "\<lambda>t. Some ?p" "Some ''Bearer token''" ?p "JStr ''alice''" "''alice''"
          "JStr ''1234567890''" ?cfg "\<lambda>s. s" ?r ?db SQLAlchemyError
          "?db\<lparr>faults := [], executed := [Select ''alice'']\<rparr>", OF d _ _ _ v s g] g
    by simp
qed

end
